theory Spec2Isabelle
  imports Complex_Main "HOL-Library.Word"
begin

section \<open>Values exchanged by the pipeline\<close>

text \<open>
  The model covers \<^verbatim>\<open>src/demo_live.py\<close>: the two adapters
  \<^verbatim>\<open>local_asr_transcribe\<close> and \<^verbatim>\<open>neutts_synthesize\<close>, and the conversation
  loop of \<^verbatim>\<open>run_demo\<close> (lines 292 to 391). Python \<^verbatim>\<open>bytes\<close> are lists of
  8-bit words, Python \<^verbatim>\<open>str\<close> values are \<open>string\<close>s (ASCII text), Python integers
  that cannot be negative here (sample width, frame rate, channel count) are \<open>nat\<close>.
\<close>

type_synonym byte = "8 word"
type_synonym bytes = "byte list"
type_synonym path = string

text \<open>
  Exceptions are values. Every constructor stands for a subclass of Python's
  \<^verbatim>\<open>Exception\<close>, which is what the \<^verbatim>\<open>except Exception\<close> handlers of the source
  catch. Interrupts deriving from \<^verbatim>\<open>BaseException\<close> only (keyboard interrupt, task
  cancellation) are not raised by any operation of the model.
\<close>

datatype exn =
    ConnectionFailed string
  | OSError string
  | WaveError string
  | AudioopError string
  | JSONDecodeError
  | AttributeError
  | TypeError
  | ClientError string
  | EngineError string
  | PlaybackError string

text \<open>The header fields and the frames that lines 125 to 129 read from a WAV file.\<close>

record wav =
  frames :: bytes
  width :: nat
  rate :: nat
  n_channels :: nat

text \<open>A value produced by \<^verbatim>\<open>json.loads\<close>; an object is its list of members.\<close>

datatype json =
    JNull
  | JBool bool
  | JNumber int
  | JString string
  | JArray "json list"
  | JObject "(string \<times> json) list"

text \<open>A WebSocket message: \<^verbatim>\<open>bytes\<close> travel as a binary frame, \<^verbatim>\<open>str\<close> as a text frame.\<close>

datatype ws_message = Binary bytes | Text string

section \<open>The interface of the audioop module\<close>

text \<open>
  \<^verbatim>\<open>audioop\<close> belongs to the Python standard library, not to the repository. The
  adapters are modelled over any implementation of the four functions they call; each
  returns the new fragment or raises. \<open>ratecv\<close> takes the fragment, the width, the
  number of channels, the input rate and the output rate; the source always passes the
  state \<^verbatim>\<open>None\<close> and drops the returned state.
\<close>

record audioop =
  tomono :: "bytes \<Rightarrow> nat \<Rightarrow> rat \<Rightarrow> rat \<Rightarrow> exn + bytes"
  ratecv :: "bytes \<Rightarrow> nat \<Rightarrow> nat \<Rightarrow> nat \<Rightarrow> nat \<Rightarrow> exn + bytes"
  lin2ulaw :: "bytes \<Rightarrow> nat \<Rightarrow> exn + bytes"
  ulaw2lin :: "bytes \<Rightarrow> nat \<Rightarrow> exn + bytes"

section \<open>The audioop module of CPython\<close>

text \<open>
  The four functions as CPython implements them (\<^verbatim>\<open>Modules/audioop.c\<close>, little-endian
  host), for the arguments the source passes: \<^verbatim>\<open>ratecv\<close> with the state \<^verbatim>\<open>None\<close> and
  the default weights 1 and 0. The C code computes \<^verbatim>\<open>tomono\<close> and \<^verbatim>\<open>ratecv\<close> in double
  precision; on samples of at most 32 bits, the factors 0.5 and rates below \<open>2 ^ 20\<close> those
  computations are exact, so rationals and integers give the same samples. The
  \<^verbatim>\<open>MemoryError\<close> of a fragment too large to allocate is left out.
\<close>

unbundle bit_operations_syntax

text \<open>\<^verbatim>\<open>audioop_check_size\<close> and \<^verbatim>\<open>audioop_check_parameters\<close>.\<close>

definition audioop_check_size :: "nat \<Rightarrow> exn option" where
  "audioop_check_size wd =
     (if wd < 1 \<or> wd > 4 then Some (AudioopError ''Size should be 1, 2, 3 or 4'') else None)"

definition audioop_check_parameters :: "nat \<Rightarrow> nat \<Rightarrow> exn option" where
  "audioop_check_parameters len wd =
     (case audioop_check_size wd of
        Some e \<Rightarrow> Some e
      | None \<Rightarrow> if len mod wd \<noteq> 0 then Some (AudioopError ''not a whole number of frames'') else None)"

text \<open>A fragment cut into pieces of \<open>n\<close> bytes, as the loops of the module walk it.\<close>

fun chunked :: "nat \<Rightarrow> 'a list \<Rightarrow> 'a list list" where
  "chunked n xs = (if n = 0 \<or> xs = [] then [] else take n xs # chunked n (drop n xs))"

declare chunked.simps [simp del]

fun le_uint :: "bytes \<Rightarrow> int" where
  "le_uint [] = 0"
| "le_uint (b # bs) = uint b + 256 * le_uint bs"

fun le_bytes :: "nat \<Rightarrow> int \<Rightarrow> bytes" where
  "le_bytes 0 v = []"
| "le_bytes (Suc n) v = word_of_int v # le_bytes n (v div 256)"

text \<open>\<^verbatim>\<open>GETRAWSAMPLE\<close>, \<^verbatim>\<open>SETRAWSAMPLE\<close>: a signed sample of \<open>wd\<close> bytes (the width);
  \<^verbatim>\<open>GETSAMPLE32\<close>, \<^verbatim>\<open>SETSAMPLE32\<close>: the same scaled to 32 bits.\<close>

definition getrawsample :: "nat \<Rightarrow> bytes \<Rightarrow> int" where
  "getrawsample wd cp =
     (let u = le_uint (take wd cp) in if u \<ge> 2 ^ (8 * wd - 1) then u - 2 ^ (8 * wd) else u)"

definition setrawsample :: "nat \<Rightarrow> int \<Rightarrow> bytes" where
  "setrawsample wd v = le_bytes wd v"

definition getsample32 :: "nat \<Rightarrow> bytes \<Rightarrow> int" where
  "getsample32 wd cp = getrawsample wd cp * 2 ^ (32 - 8 * wd)"

definition setsample32 :: "nat \<Rightarrow> int \<Rightarrow> bytes" where
  "setsample32 wd v = setrawsample wd (v div 2 ^ (32 - 8 * wd))"

definition maxval :: "nat \<Rightarrow> int" where
  "maxval wd = 2 ^ (8 * wd - 1) - 1"

definition minval :: "nat \<Rightarrow> int" where
  "minval wd = - (2 ^ (8 * wd - 1))"

definition fbound :: "rat \<Rightarrow> int \<Rightarrow> int \<Rightarrow> int" where
  "fbound v lo hi =
     \<lfloor>if v > of_int hi then of_int hi else if v < of_int lo + 1 then of_int lo else v\<rfloor>"

text \<open>\<^verbatim>\<open>audioop.tomono(fragment, width, lfactor, rfactor)\<close>.\<close>

definition audioop_tomono :: "bytes \<Rightarrow> nat \<Rightarrow> rat \<Rightarrow> rat \<Rightarrow> exn + bytes" where
  "audioop_tomono cp wd lfactor rfactor =
     (case audioop_check_parameters (length cp) wd of
        Some e \<Rightarrow> Inl e
      | None \<Rightarrow>
          if odd (length cp div wd) then Inl (AudioopError ''not a whole number of frames'')
          else Inr (concat (map
                 (\<lambda>fr. setrawsample wd
                    (fbound (of_int (getrawsample wd fr) * lfactor +
                             of_int (getrawsample wd (drop wd fr)) * rfactor)
                       (minval wd) (maxval wd)))
                 (chunked (wd * 2) cp))))"

text \<open>\<^verbatim>\<open>st_14linear2ulaw\<close>: the G.711 mu-law code of a 14-bit sample, with
  \<^verbatim>\<open>CLIP\<close> 8159, \<^verbatim>\<open>BIAS >> 2\<close> 33 and the segment ends \<^verbatim>\<open>seg_uend\<close>.\<close>

definition seg_uend :: "int list" where
  "seg_uend = [63, 127, 255, 511, 1023, 2047, 4095, 8191]"

definition search :: "int \<Rightarrow> int list \<Rightarrow> nat" where
  "search v table = length (takeWhile (\<lambda>u. \<not> v \<le> u) table)"

definition st_14linear2ulaw :: "int \<Rightarrow> byte" where
  "st_14linear2ulaw pcm_val =
     (let mask = (if pcm_val < 0 then 127 else 255 :: int);
          mag = (if pcm_val < 0 then - pcm_val else pcm_val);
          biased = (if mag > 8159 then 8159 else mag) + 33;
          seg = search biased seg_uend
      in if seg \<ge> 8 then word_of_int (127 XOR mask)
         else word_of_int ((push_bit 4 (int seg) OR (drop_bit (seg + 1) biased AND 15)) XOR mask))"

text \<open>\<^verbatim>\<open>audioop.lin2ulaw(fragment, width)\<close>: one byte for each sample.\<close>

definition audioop_lin2ulaw :: "bytes \<Rightarrow> nat \<Rightarrow> exn + bytes" where
  "audioop_lin2ulaw cp wd =
     (case audioop_check_parameters (length cp) wd of
        Some e \<Rightarrow> Inl e
      | None \<Rightarrow> Inr (map (\<lambda>c. st_14linear2ulaw (getsample32 wd c div 2 ^ 18)) (chunked wd cp)))"

text \<open>The table \<^verbatim>\<open>_st_ulaw2linear16\<close>, by the G.711 expansion that fills it.\<close>

definition st_ulaw2linear16 :: "byte \<Rightarrow> int" where
  "st_ulaw2linear16 b =
     (let u = 255 - uint b;
          t = push_bit (nat (drop_bit 4 (u AND 112))) (push_bit 3 (u AND 15) + 132)
      in if u AND 128 \<noteq> 0 then 132 - t else t - 132)"

text \<open>\<^verbatim>\<open>audioop.ulaw2lin(fragment, width)\<close>: \<open>width\<close> bytes for each byte.\<close>

definition audioop_ulaw2lin :: "bytes \<Rightarrow> nat \<Rightarrow> exn + bytes" where
  "audioop_ulaw2lin cp wd =
     (case audioop_check_size wd of
        Some e \<Rightarrow> Inl e
      | None \<Rightarrow> Inr (concat (map (\<lambda>b. setsample32 wd (st_ulaw2linear16 b * 2 ^ 16)) cp)))"

text \<open>The C cast \<^verbatim>\<open>(int)\<close> of a quotient: rounded towards zero.\<close>

definition trunc_quot :: "int \<Rightarrow> int \<Rightarrow> int" where
  "trunc_quot a b = sgn a * sgn b * (\<bar>a\<bar> div \<bar>b\<bar>)"

text \<open>
  The loop of \<^verbatim>\<open>ratecv\<close> over frames of 32-bit samples, one list entry per channel.
  While \<open>d < 0\<close> an input frame is consumed (and the loop ends when none is left): the
  frame passes the filter with weights 1 and 0 and \<open>d\<close> grows by \<open>outrate\<close>. While
  \<open>0 \<le> d\<close> an output frame is interpolated between the previous and the current input
  frame and \<open>d\<close> shrinks by \<open>inrate\<close>.
\<close>

function ratecv_loop ::
  "int \<Rightarrow> int \<Rightarrow> int \<Rightarrow> int list \<Rightarrow> int list \<Rightarrow> int list list \<Rightarrow> int list list" where
  "ratecv_loop inrate outrate d prev_i cur_i frs =
     (if inrate \<le> 0 \<or> outrate \<le> 0 then []
      else if d < 0 then
        (case frs of
           [] \<Rightarrow> []
         | fr # rest \<Rightarrow>
             ratecv_loop inrate outrate (d + outrate) cur_i
               (map2 (\<lambda>c p. trunc_quot (1 * c + 0 * p) (1 + 0)) fr cur_i) rest)
      else
        map2 (\<lambda>p c. trunc_quot (p * d + c * (outrate - d)) outrate) prev_i cur_i
          # ratecv_loop inrate outrate (d - inrate) prev_i cur_i frs)"
  by pat_completeness auto
termination
  by (relation "measures [\<lambda>(inrate, outrate, d, prev_i, cur_i, frs). length frs,
                          \<lambda>(inrate, outrate, d, prev_i, cur_i, frs). nat (d + 1)]") auto

declare ratecv_loop.simps [simp del]

text \<open>\<^verbatim>\<open>audioop.ratecv(fragment, width, nchannels, inrate, outrate, None)\<close>, the new
  fragment of the pair it returns.\<close>

definition audioop_ratecv :: "bytes \<Rightarrow> nat \<Rightarrow> nat \<Rightarrow> nat \<Rightarrow> nat \<Rightarrow> exn + bytes" where
  "audioop_ratecv cp wd nchannels inrate outrate =
     (case audioop_check_size wd of
        Some e \<Rightarrow> Inl e
      | None \<Rightarrow>
          if nchannels < 1 then Inl (AudioopError ''# of channels should be >= 1'')
          else if length cp mod (wd * nchannels) \<noteq> 0
            then Inl (AudioopError ''not a whole number of frames'')
          else if inrate = 0 \<or> outrate = 0 then Inl (AudioopError ''sampling rate not > 0'')
          else
            (let g = gcd inrate outrate;
                 frs = map (\<lambda>fr. map (getsample32 wd) (chunked wd fr))
                         (chunked (wd * nchannels) cp);
                 out = ratecv_loop (int (inrate div g)) (int (outrate div g))
                         (- int (outrate div g)) (replicate nchannels 0) (replicate nchannels 0) frs
             in Inr (concat (map (\<lambda>fr. concat (map (setsample32 wd) fr)) out))))"

definition cpython_audioop :: audioop where
  "cpython_audioop =
     \<lparr>tomono = audioop_tomono, ratecv = audioop_ratecv,
      lin2ulaw = audioop_lin2ulaw, ulaw2lin = audioop_ulaw2lin\<rparr>"

section \<open>Transcoding inside local\_asr\_transcribe (lines 131 to 140)\<close>

text \<open>
  Lines 132 and 133: \<^verbatim>\<open>if n_channels == 2: frames = audioop.tomono(frames, width, 0.5, 0.5)\<close>.
\<close>

definition to_mono_step :: "audioop \<Rightarrow> bytes \<Rightarrow> nat \<Rightarrow> nat \<Rightarrow> exn + bytes" where
  "to_mono_step A fr w nch = (if nch = 2 then tomono A fr w (1 / 2) (1 / 2) else Inr fr)"

text \<open>
  Lines 136 and 137:
  \<^verbatim>\<open>if rate != 8000: frames, _ = audioop.ratecv(frames, width, 1, rate, 8000, None)\<close>.
\<close>

definition resample_step :: "audioop \<Rightarrow> bytes \<Rightarrow> nat \<Rightarrow> nat \<Rightarrow> exn + bytes" where
  "resample_step A fr w r = (if r \<noteq> 8000 then ratecv A fr w 1 r 8000 else Inr fr)"

text \<open>
  Lines 131 to 140 as a whole; an exception of a stage ends the transcoding. Line 140 is
  \<^verbatim>\<open>mulaw_bytes = audioop.lin2ulaw(frames, width)\<close>.
\<close>

definition transcode :: "audioop \<Rightarrow> wav \<Rightarrow> exn + bytes" where
  "transcode A f =
     (case to_mono_step A (frames f) (width f) (n_channels f) of
        Inl e \<Rightarrow> Inl e
      | Inr mixed \<Rightarrow>
          (case resample_step A mixed (width f) (rate f) of
             Inl e \<Rightarrow> Inl e
           | Inr resampled \<Rightarrow> lin2ulaw A resampled (width f)))"

section \<open>The outside world and the trace of calls\<close>

text \<open>What \<^verbatim>\<open>play\<close> of pydub is given: the WAV file of a step (line 307), or the
  \<^verbatim>\<open>AudioSegment\<close> built at lines 383 to 388 from PCM data, sample width, frame rate
  and channel count.\<close>

datatype audio = WavFile path | PcmSegment bytes nat nat nat

text \<open>The lines the source prints with \<^verbatim>\<open>console.print\<close>, by their content.\<close>

datatype console_line =
    AsrErrorLine exn
  | TtsErrorLine exn
  | MissingLine path
  | NoTranscriptLine path
  | RasaStatusLine nat
  | RasaFailedLine exn

text \<open>The status texts of \<^verbatim>\<open>layout["status"].update\<close> inside the loop.\<close>

datatype status_text = UserSpeaking string | Transcribing | RasaThinking | NeuTTSSpeaking

datatype speaker = User | Agent

type_synonym bubble = "speaker \<times> string"

text \<open>
  Every call the program makes to a collaborator is recorded, in order, as an event:
  the terminal (\<open>ConsolePrint\<close>, \<open>PrintTraceback\<close>, \<open>StatusUpdate\<close>, \<open>ChatView\<close> with the
  bubbles shown), the file system, the WebSocket to the transcription service, the HTTP
  request to the dialogue service (sender and message), the synthesis engine, the audio
  output and the clock.
\<close>

datatype event =
    ConsolePrint console_line
  | PrintTraceback
  | StatusUpdate status_text
  | ChatView "bubble list"
  | PathExists path
  | Play audio
  | WsConnect
  | WsClose
  | WaveRead path
  | WsSend ws_message
  | WsRecv
  | RasaPost string string
  | TtsSynthesize string
  | Sleep

text \<open>The reply of the dialogue service: the HTTP status, and what \<^verbatim>\<open>resp.json()\<close>
  gives, a list of objects whose members are strings here (Rasa's REST channel).\<close>

type_synonym reply = "(string \<times> string) list"

record http_response =
  status :: nat
  json_body :: "exn + reply list"

text \<open>
  The collaborators, over a state \<open>'w\<close> of the world that each call may change. A call
  returns normally (\<open>Inr\<close>) or raises (\<open>Inl\<close>). \<open>tts_synthesize\<close> stands for
  \<^verbatim>\<open>NeuTTSService.synthesize\<close>, whose module \<^verbatim>\<open>services/neutts_service\<close> is not among
  the sources: it gives the chunks the asynchronous generator yields, in order, and the
  exception that ended it, if one did. \<open>json_loads\<close> is \<^verbatim>\<open>json.loads\<close>.
\<close>

record 'w env =
  audioop_lib :: audioop
  json_loads :: "ws_message \<Rightarrow> exn + json"
  ws_connect :: "'w \<Rightarrow> (exn + unit) \<times> 'w"
  wave_read :: "path \<Rightarrow> 'w \<Rightarrow> (exn + wav) \<times> 'w"
  ws_send :: "ws_message \<Rightarrow> 'w \<Rightarrow> (exn + unit) \<times> 'w"
  ws_recv :: "'w \<Rightarrow> (exn + ws_message) \<times> 'w"
  tts_synthesize :: "string \<Rightarrow> 'w \<Rightarrow> (bytes list \<times> exn option) \<times> 'w"
  path_exists :: "path \<Rightarrow> 'w \<Rightarrow> bool \<times> 'w"
  play :: "audio \<Rightarrow> 'w \<Rightarrow> (exn + unit) \<times> 'w"
  rasa_post :: "string \<Rightarrow> string \<Rightarrow> 'w \<Rightarrow> (exn + http_response) \<times> 'w"

text \<open>The state a run threads through: the world, the trace of calls made so far, and
  \<^verbatim>\<open>full_history\<close> of \<^verbatim>\<open>run_demo\<close>.\<close>

record 'w state =
  world :: 'w
  trace :: "event list"
  full_history :: "bubble list"

type_synonym ('w, 'a) io = "'w state \<Rightarrow> (exn + 'a) \<times> 'w state"

definition io_return :: "'a \<Rightarrow> ('w, 'a) io" where
  "io_return x = (\<lambda>s. (Inr x, s))"

definition io_lift :: "exn + 'a \<Rightarrow> ('w, 'a) io" where
  "io_lift r = (\<lambda>s. (r, s))"

text \<open>Sequencing: an exception of the first part skips the second.\<close>

definition io_bind :: "('w, 'a) io \<Rightarrow> ('a \<Rightarrow> ('w, 'b) io) \<Rightarrow> ('w, 'b) io" where
  "io_bind m f = (\<lambda>s. case m s of (Inl e, s') \<Rightarrow> (Inl e, s') | (Inr x, s') \<Rightarrow> f x s')"

text \<open>\<^verbatim>\<open>try: m except Exception as e: h\<close>.\<close>

definition io_try :: "('w, 'a) io \<Rightarrow> (exn \<Rightarrow> ('w, 'a) io) \<Rightarrow> ('w, 'a) io" where
  "io_try m h = (\<lambda>s. case m s of (Inl e, s') \<Rightarrow> h e s' | (Inr x, s') \<Rightarrow> (Inr x, s'))"

definition emit :: "event \<Rightarrow> ('w, unit) io" where
  "emit ev = (\<lambda>s. (Inr (), s\<lparr>trace := trace s @ [ev]\<rparr>))"

text \<open>A call to a collaborator: recorded, then answered by the world.\<close>

definition call :: "event \<Rightarrow> ('w \<Rightarrow> (exn + 'a) \<times> 'w) \<Rightarrow> ('w, 'a) io" where
  "call ev f = (\<lambda>s. case f (world s) of (r, w') \<Rightarrow> (r, s\<lparr>world := w', trace := trace s @ [ev]\<rparr>))"

text \<open>\<^verbatim>\<open>async with websockets.connect(...) as ws: body\<close>: the connection is closed when
  the body is left, normally or by an exception.\<close>

definition with_connection :: "'w env \<Rightarrow> ('w, 'a) io \<Rightarrow> ('w, 'a) io" where
  "with_connection E body =
     io_bind (call WsConnect (ws_connect E))
       (\<lambda>_ s. case body s of (r, s') \<Rightarrow> (r, s'\<lparr>trace := trace s' @ [WsClose]\<rparr>))"

section \<open>local\_asr\_transcribe (lines 117 to 155)\<close>

text \<open>\<^verbatim>\<open>str.strip()\<close>: leading and trailing whitespace removed (the ASCII whitespace
  characters of \<^verbatim>\<open>str.isspace\<close>).\<close>

definition is_space :: "char \<Rightarrow> bool" where
  "is_space c = (of_char c \<in> {9, 10, 11, 12, 13, 28, 29, 30, 31, 32 :: nat})"

definition py_strip :: "string \<Rightarrow> string" where
  "py_strip s = rev (dropWhile is_space (rev (dropWhile is_space s)))"

text \<open>
  Line 151, \<^verbatim>\<open>data.get("text", "").strip()\<close>: only a dict has \<^verbatim>\<open>get\<close>, only a string
  has \<^verbatim>\<open>strip\<close>; anything else raises \<^verbatim>\<open>AttributeError\<close>.
\<close>

fun response_text :: "json \<Rightarrow> exn + string" where
  "response_text (JObject members) =
     (case map_of members ''text'' of
        None \<Rightarrow> Inr (py_strip [])
      | Some (JString t) \<Rightarrow> Inr (py_strip t)
      | Some _ \<Rightarrow> Inl AttributeError)"
| "response_text _ = Inl AttributeError"

text \<open>The control message of line 146, \<^verbatim>\<open>json.dumps({"action": "transcribe"})\<close>: the
  text \<^verbatim>\<open>{"action": "transcribe"}\<close>, whose quotation mark is character 34.\<close>

definition transcribe_request :: string where
  "transcribe_request =
     ''{'' @ [char_of (34 :: nat)] @ ''action'' @ [char_of (34 :: nat)] @ '': '' @
     [char_of (34 :: nat)] @ ''transcribe'' @ [char_of (34 :: nat)] @ ''}''"

text \<open>The body of the \<^verbatim>\<open>try\<close> (lines 123 to 151).\<close>

definition asr_attempt :: "'w env \<Rightarrow> path \<Rightarrow> ('w, string) io" where
  "asr_attempt E audio_path =
     with_connection E
       (io_bind (call (WaveRead audio_path) (wave_read E audio_path)) (\<lambda>w.
        io_bind (io_lift (transcode (audioop_lib E) w)) (\<lambda>mulaw_bytes.
        io_bind (call (WsSend (Binary mulaw_bytes)) (ws_send E (Binary mulaw_bytes))) (\<lambda>_.
        io_bind (call (WsSend (Text transcribe_request)) (ws_send E (Text transcribe_request))) (\<lambda>_.
        io_bind (call WsRecv (ws_recv E)) (\<lambda>response.
        io_bind (io_lift (json_loads E response)) (\<lambda>data.
        io_lift (response_text data))))))))"

text \<open>Lines 153 to 155: any exception is printed and becomes the empty transcript.\<close>

definition local_asr_transcribe :: "'w env \<Rightarrow> path \<Rightarrow> ('w, string) io" where
  "local_asr_transcribe E audio_path =
     io_try (asr_attempt E audio_path)
       (\<lambda>e. io_bind (emit (ConsolePrint (AsrErrorLine e))) (\<lambda>_. io_return []))"

section \<open>neutts\_synthesize (lines 157 to 177)\<close>

text \<open>Lines 163 to 165: \<^verbatim>\<open>ulaw_data = bytearray()\<close>, then \<^verbatim>\<open>ulaw_data.extend(chunk)\<close> for
  each chunk as it arrives.\<close>

fun extend_all :: "bytes \<Rightarrow> bytes list \<Rightarrow> bytes" where
  "extend_all ulaw_data [] = ulaw_data"
| "extend_all ulaw_data (chunk # chunks) = extend_all (ulaw_data @ chunk) chunks"

text \<open>The \<^verbatim>\<open>async for\<close> loop: the chunks are accumulated; an exception of the generator
  leaves the loop with what was accumulated lost.\<close>

definition collect_chunks :: "'w env \<Rightarrow> string \<Rightarrow> ('w, bytes) io" where
  "collect_chunks E text =
     call (TtsSynthesize text)
       (\<lambda>w. case tts_synthesize E text w of
               ((chunks, None), w') \<Rightarrow> (Inr (extend_all [] chunks), w')
             | ((chunks, Some e), w') \<Rightarrow> (Inl e, w'))"

text \<open>The body of the \<^verbatim>\<open>try\<close> (lines 163 to 172).\<close>

definition tts_attempt :: "'w env \<Rightarrow> string \<Rightarrow> ('w, bytes) io" where
  "tts_attempt E text =
     io_bind (collect_chunks E text) (\<lambda>ulaw_data.
       if ulaw_data = [] then io_return []
       else io_lift (ulaw2lin (audioop_lib E) ulaw_data 2))"

text \<open>Lines 174 to 177: any exception is printed with its traceback and becomes \<^verbatim>\<open>b""\<close>.\<close>

definition neutts_synthesize :: "'w env \<Rightarrow> string \<Rightarrow> ('w, bytes) io" where
  "neutts_synthesize E text =
     io_try (tts_attempt E text)
       (\<lambda>e. io_bind (emit (ConsolePrint (TtsErrorLine e))) (\<lambda>_.
             io_bind (emit PrintTraceback) (\<lambda>_. io_return [])))"

section \<open>The conversation loop of run\_demo (lines 292 to 391)\<close>

text \<open>An entry of \<^verbatim>\<open>CONVERSATION_STEPS\<close>, with its keys \<^verbatim>\<open>file\<close> and \<^verbatim>\<open>label\<close>.\<close>

record step =
  step_file :: string
  step_label :: string

definition CONVERSATION_STEPS :: "step list" where
  "CONVERSATION_STEPS =
     [\<lparr>step_file = ''user_input_1.wav'', step_label = ''Transfer Request''\<rparr>,
      \<lparr>step_file = ''user_input_2.wav'', step_label = ''Account Selection''\<rparr>,
      \<lparr>step_file = ''user_input_3.wav'', step_label = ''Account Destination''\<rparr>,
      \<lparr>step_file = ''user_input_4.wav'', step_label = ''Amount''\<rparr>,
      \<lparr>step_file = ''user_input_5.wav'', step_label = ''Confirmation''\<rparr>]"

definition AUDIO_DIR :: path where
  "AUDIO_DIR = ''tests/audio''"

definition MAX_VISIBLE_BUBBLES :: nat where
  "MAX_VISIBLE_BUBBLES = 6"

text \<open>\<^verbatim>\<open>full_history.append(panel)\<close> followed by \<^verbatim>\<open>update_chat_view()\<close>, which shows
  \<^verbatim>\<open>full_history[-MAX_VISIBLE_BUBBLES:]\<close>.\<close>

definition add_bubble :: "bubble \<Rightarrow> ('w, unit) io" where
  "add_bubble b =
     (\<lambda>s. let h = full_history s @ [b]
           in (Inr (), s\<lparr>trace := trace s @ [ChatView (drop (length h - MAX_VISIBLE_BUBBLES) h)],
                          full_history := h\<rparr>))"

text \<open>Lines 356 to 389: the replies, one after the other. A reply without \<^verbatim>\<open>text\<close> is
  passed over; the audio of a reply is played only when it is not empty.\<close>

fun speak_replies :: "'w env \<Rightarrow> reply list \<Rightarrow> ('w, unit) io" where
  "speak_replies E [] = io_return ()"
| "speak_replies E (response # bot_responses) =
     io_bind
       (case map_of response ''text'' of
          None \<Rightarrow> io_return ()
        | Some agent_text \<Rightarrow>
            io_bind (add_bubble (Agent, agent_text)) (\<lambda>_.
            io_bind (emit (StatusUpdate NeuTTSSpeaking)) (\<lambda>_.
            io_bind (neutts_synthesize E agent_text) (\<lambda>pcm_audio.
              if pcm_audio \<noteq> []
              then call (Play (PcmSegment pcm_audio 2 8000 1)) (play E (PcmSegment pcm_audio 2 8000 1))
              else io_return ()))))
       (\<lambda>_. speak_replies E bot_responses)"

text \<open>Lines 340 to 353: the request to the dialogue service. \<open>None\<close> stands for the
  two \<^verbatim>\<open>continue\<close> exits (a status other than 200, an exception).\<close>

definition ask_rasa :: "'w env \<Rightarrow> string \<Rightarrow> ('w, reply list option) io" where
  "ask_rasa E transcript =
     io_try
       (io_bind (call (RasaPost ''demo-user'' transcript) (rasa_post E ''demo-user'' transcript)) (\<lambda>resp.
          if status resp \<noteq> 200
          then io_bind (emit (ConsolePrint (RasaStatusLine (status resp)))) (\<lambda>_. io_return None)
          else io_bind (io_lift (json_body resp)) (\<lambda>bot_responses. io_return (Some bot_responses))))
       (\<lambda>e. io_bind (emit (ConsolePrint (RasaFailedLine e))) (\<lambda>_. io_return None))"

text \<open>One iteration of the loop (lines 293 to 391). Returning before the end is
  \<^verbatim>\<open>continue\<close>; an exception of \<^verbatim>\<open>play\<close> is not caught and leaves the loop.\<close>

definition run_step :: "'w env \<Rightarrow> step \<Rightarrow> ('w, unit) io" where
  "run_step E st =
     (let audio_path = AUDIO_DIR @ ''/'' @ step_file st in
      io_bind (call (PathExists audio_path) (\<lambda>w. case path_exists E audio_path w of (b, w') \<Rightarrow> (Inr b, w'))) (\<lambda>present.
        if \<not> present then emit (ConsolePrint (MissingLine audio_path))
        else
          io_bind (emit (StatusUpdate (UserSpeaking (step_label st)))) (\<lambda>_.
          io_bind (call (Play (WavFile audio_path)) (play E (WavFile audio_path))) (\<lambda>_.
          io_bind (emit (StatusUpdate Transcribing)) (\<lambda>_.
          io_bind (local_asr_transcribe E audio_path) (\<lambda>transcript.
            if transcript = [] then emit (ConsolePrint (NoTranscriptLine audio_path))
            else
              io_bind (add_bubble (User, transcript)) (\<lambda>_.
              io_bind (emit (StatusUpdate RasaThinking)) (\<lambda>_.
              io_bind (ask_rasa E transcript) (\<lambda>answer.
                case answer of
                  None \<Rightarrow> io_return ()
                | Some bot_responses \<Rightarrow>
                    io_bind (speak_replies E bot_responses) (\<lambda>_. emit Sleep))))))))))"

text \<open>\<^verbatim>\<open>for step in CONVERSATION_STEPS\<close>, over any list of steps.\<close>

fun run_steps :: "'w env \<Rightarrow> step list \<Rightarrow> ('w, unit) io" where
  "run_steps E [] = io_return ()"
| "run_steps E (st # steps) = io_bind (run_step E st) (\<lambda>_. run_steps E steps)"

section \<open>A stub environment\<close>

text \<open>
  Collaborators that always answer, used to run the definitions on concrete inputs. The
  world is a counter of the calls answered. The WAV file holds four stereo frames of
  16-bit samples at 16 kHz; the transcription service answers with a text padded by
  blanks; the dialogue service answers with two text replies and one reply without text;
  the engine yields two chunks.
\<close>

definition stub_wav :: wav where
  "stub_wav = \<lparr>frames = [100, 0, 44, 1, 48, 248, 24, 252, 48, 117, 255, 127, 251, 255, 4, 0],
                width = 2, rate = 16000, n_channels = 2\<rparr>"

definition stub_replies :: "reply list" where
  "stub_replies =
     [[(''text'', ''Which account?'')],
      [(''image'', ''logo.png'')],
      [(''text'', ''Checking or savings?'')]]"

definition stub_env :: "nat env" where
  "stub_env =
     \<lparr>audioop_lib = cpython_audioop,
      json_loads = (\<lambda>m. Inr (JObject [(''text'', JString '' I want to transfer money. '')])),
      ws_connect = (\<lambda>w. (Inr (), Suc w)),
      wave_read = (\<lambda>p w. (Inr stub_wav, Suc w)),
      ws_send = (\<lambda>m w. (Inr (), Suc w)),
      ws_recv = (\<lambda>w. (Inr (Text ''{...}''), Suc w)),
      tts_synthesize = (\<lambda>t w. (([[255, 0, 128], [85, 170]], None), Suc w)),
      path_exists = (\<lambda>p w. (True, Suc w)),
      play = (\<lambda>a w. (Inr (), Suc w)),
      rasa_post = (\<lambda>sender message w. (Inr \<lparr>status = 200, json_body = Inr stub_replies\<rparr>, Suc w))\<rparr>"

definition initial :: "nat state" where
  "initial = \<lparr>world = 0, trace = [], full_history = []\<rparr>"

text \<open>The same collaborators with the transcription service unreachable, and with an
  engine that yields no chunk.\<close>

definition unreachable_env :: "nat env" where
  "unreachable_env =
     stub_env\<lparr>ws_connect := (\<lambda>w. (Inl (ConnectionFailed ''connection refused''), Suc w))\<rparr>"

definition silent_env :: "nat env" where
  "silent_env = stub_env\<lparr>tts_synthesize := (\<lambda>t w. (([], None), Suc w))\<rparr>"

definition missing_env :: "nat env" where
  "missing_env = stub_env\<lparr>path_exists := (\<lambda>p w. (False, Suc w))\<rparr>"

text \<open>An engine that yields three chunks of 160 bytes.\<close>

definition three_chunk_env :: "nat env" where
  "three_chunk_env =
     stub_env\<lparr>tts_synthesize :=
       (\<lambda>t w. (([replicate 160 255, replicate 160 0, replicate 160 128], None), Suc w))\<rparr>"

section \<open>What a trace shows of the agent's speech\<close>

text \<open>The synthesis calls and the playbacks of synthesized audio in a trace, in order.\<close>

datatype action = Synthesized string | Played bytes

fun agent_action :: "event \<Rightarrow> action list" where
  "agent_action (TtsSynthesize t) = [Synthesized t]"
| "agent_action (Play (PcmSegment pcm w r c)) = [Played pcm]"
| "agent_action _ = []"

definition agent_actions :: "event list \<Rightarrow> action list" where
  "agent_actions evs = concat (map agent_action evs)"

text \<open>The texts of the replies that have one, in the order of the replies.\<close>

definition reply_texts :: "reply list \<Rightarrow> string list" where
  "reply_texts rs = List.map_filter (\<lambda>r. map_of r ''text'') rs"

section \<open>Properties\<close>

text \<open>
  C3. For every linear-PCM buffer whose sample rate is already 8000 Hz, the resampling
  step with target rate 8000 returns the sample bytes unchanged, whatever the codec
  library is; a mono 8000 Hz input therefore reaches the mu-law encoder as it was read.
\<close>

theorem resample_step_8000_identity:
  "resample_step A fr w 8000 = Inr fr \<and>
   transcode A \<lparr>frames = fr, width = w, rate = 8000, n_channels = 1\<rparr> = lin2ulaw A fr w"
  by (simp add: resample_step_def transcode_def to_mono_step_def)

lemmas io_defs =
  io_bind_def io_try_def io_lift_def io_return_def call_def emit_def with_connection_def







text \<open>
  C2, as the code has it. The mixing step runs only for a channel count of exactly 2.
  For every other channel count (1, or more than 2) the frames are passed on unchanged
  and nothing is refused: the input is transcoded exactly as a mono input with the same
  bytes. An exception raised by the mixing of a stereo input ends that transcoding call
  with that exception.
\<close>

theorem transcode_other_channel_counts:
  "(nch \<noteq> 2 \<longrightarrow>
      to_mono_step A fr w nch = Inr fr \<and>
      transcode A \<lparr>frames = fr, width = w, rate = r, n_channels = nch\<rparr> =
      transcode A \<lparr>frames = fr, width = w, rate = r, n_channels = 1\<rparr>) \<and>
   (tomono A fr w (1 / 2) (1 / 2) = Inl e \<longrightarrow>
      transcode A \<lparr>frames = fr, width = w, rate = r, n_channels = 2\<rparr> = Inl e)"
  by (simp add: transcode_def to_mono_step_def split: sum.splits)

text \<open>
  C2 as stated fails: an 8-bit, 8000 Hz input with three channels is not refused by the
  mixing step, and its transcoding returns mu-law bytes.
\<close>

theorem three_channels_are_not_refused:
  "to_mono_step cpython_audioop [1, 2, 3] 1 3 = Inr [1, 2, 3] \<and>
   transcode cpython_audioop \<lparr>frames = [1, 2, 3], width = 1, rate = 8000, n_channels = 3\<rparr> =
     Inr [231, 219, 211]"
  by code_simp

lemma odd_stereo_fragment:
  "tomono cpython_audioop [1, 2, 3] 1 (1 / 2) (1 / 2) =
     Inl (AudioopError ''not a whole number of frames'')"
  by code_simp

theorem transcode_other_channel_counts_witness:
  "to_mono_step cpython_audioop [1, 2, 3] 1 3 = Inr [1, 2, 3] \<and>
   transcode cpython_audioop \<lparr>frames = [1, 2, 3], width = 1, rate = 8000, n_channels = 3\<rparr> =
   transcode cpython_audioop \<lparr>frames = [1, 2, 3], width = 1, rate = 8000, n_channels = 1\<rparr> \<and>
   transcode cpython_audioop \<lparr>frames = [1, 2, 3], width = 1, rate = 8000, n_channels = 2\<rparr> =
     Inl (AudioopError ''not a whole number of frames'')"
  using transcode_other_channel_counts [of 3 cpython_audioop "[1, 2, 3]" 1 8000
      "AudioopError ''not a whole number of frames''"] odd_stereo_fragment
  by simp

lemma local_asr_transcribe_total:
  "\<exists>t s'. local_asr_transcribe E p s = (Inr t, s')"
  by (simp add: local_asr_transcribe_def io_try_def io_bind_def emit_def io_return_def
      split: prod.splits sum.splits)

lemma local_asr_transcribe_caught:
  "asr_attempt E p s = (Inl e, s1) \<Longrightarrow>
   local_asr_transcribe E p s = (Inr [], s1\<lparr>trace := trace s1 @ [ConsolePrint (AsrErrorLine e)]\<rparr>)"
  by (simp add: local_asr_transcribe_def io_try_def io_bind_def emit_def io_return_def)

lemma asr_attempt_raises:
  assumes "ws_connect E (world s) = (Inl e, w1)
     \<or> ws_connect E (world s) = (Inr (), w1) \<and>
       (wave_read E p w1 = (Inl e, w2)
        \<or> wave_read E p w1 = (Inr f, w2) \<and>
          (transcode (audioop_lib E) f = Inl e
           \<or> transcode (audioop_lib E) f = Inr m \<and>
             (ws_send E (Binary m) w2 = (Inl e, w3)
              \<or> ws_send E (Binary m) w2 = (Inr (), w3) \<and>
                (ws_send E (Text transcribe_request) w3 = (Inl e, w4)
                 \<or> ws_send E (Text transcribe_request) w3 = (Inr (), w4) \<and>
                   (ws_recv E w4 = (Inl e, w5)
                    \<or> ws_recv E w4 = (Inr r, w5) \<and>
                      (json_loads E r = Inl e
                       \<or> json_loads E r = Inr d \<and> response_text d = Inl e))))))"
  shows "\<exists>s1. asr_attempt E p s = (Inl e, s1)"
  using assms
  by (auto simp: asr_attempt_def io_defs)

lemma run_step_no_transcript:
  assumes "path_exists E (AUDIO_DIR @ ''/'' @ step_file st) (world s) = (True, w1)"
      and "play E (WavFile (AUDIO_DIR @ ''/'' @ step_file st)) w1 = (Inr (), w2)"
      and "local_asr_transcribe E (AUDIO_DIR @ ''/'' @ step_file st)
             (s\<lparr>world := w2,
                trace := trace s @ [PathExists (AUDIO_DIR @ ''/'' @ step_file st),
                                    StatusUpdate (UserSpeaking (step_label st)),
                                    Play (WavFile (AUDIO_DIR @ ''/'' @ step_file st)),
                                    StatusUpdate Transcribing]\<rparr>) = (Inr [], s3)"
  shows "run_step E st s =
           (Inr (), s3\<lparr>trace := trace s3 @ [ConsolePrint (NoTranscriptLine (AUDIO_DIR @ ''/'' @ step_file st))]\<rparr>)"
  using assms
  by (simp add: run_step_def Let_def io_bind_def call_def emit_def)

text \<open>
  C4. The transcribe operation never raises: it always returns a string. When an
  exception \<open>e\<close> arises at the opening of the connection (the service is unreachable),
  at the reading of the file, in the transcoding, at either send, at the receive or in
  the reading of the response, the body of the \<^verbatim>\<open>try\<close> raises \<open>e\<close> and the operation
  prints it and returns the empty string. When the transcript of a step is empty, the
  driver prints a line and goes on with the next step: nothing else happens in that
  step, and the run is not aborted.
\<close>

theorem transcribe_failure_is_empty_transcript:
  "(\<exists>t s'. local_asr_transcribe E p s = (Inr t, s')) \<and>
   (ws_connect E (world s) = (Inl e, w1)
     \<or> ws_connect E (world s) = (Inr (), w1) \<and>
       (wave_read E p w1 = (Inl e, w2)
        \<or> wave_read E p w1 = (Inr f, w2) \<and>
          (transcode (audioop_lib E) f = Inl e
           \<or> transcode (audioop_lib E) f = Inr m \<and>
             (ws_send E (Binary m) w2 = (Inl e, w3)
              \<or> ws_send E (Binary m) w2 = (Inr (), w3) \<and>
                (ws_send E (Text transcribe_request) w3 = (Inl e, w4)
                 \<or> ws_send E (Text transcribe_request) w3 = (Inr (), w4) \<and>
                   (ws_recv E w4 = (Inl e, w5)
                    \<or> ws_recv E w4 = (Inr r, w5) \<and>
                      (json_loads E r = Inl e
                       \<or> json_loads E r = Inr d \<and> response_text d = Inl e))))))
    \<longrightarrow> (\<exists>s1. asr_attempt E p s = (Inl e, s1) \<and>
           local_asr_transcribe E p s =
             (Inr [], s1\<lparr>trace := trace s1 @ [ConsolePrint (AsrErrorLine e)]\<rparr>))) \<and>
   (path_exists E (AUDIO_DIR @ ''/'' @ step_file st) (world s0) = (True, v1) \<and>
    play E (WavFile (AUDIO_DIR @ ''/'' @ step_file st)) v1 = (Inr (), v2) \<and>
    local_asr_transcribe E (AUDIO_DIR @ ''/'' @ step_file st)
      (s0\<lparr>world := v2,
          trace := trace s0 @ [PathExists (AUDIO_DIR @ ''/'' @ step_file st),
                               StatusUpdate (UserSpeaking (step_label st)),
                               Play (WavFile (AUDIO_DIR @ ''/'' @ step_file st)),
                               StatusUpdate Transcribing]\<rparr>) = (Inr [], s3)
    \<longrightarrow> run_step E st s0 =
          (Inr (), s3\<lparr>trace := trace s3 @
             [ConsolePrint (NoTranscriptLine (AUDIO_DIR @ ''/'' @ step_file st))]\<rparr>) \<and>
        run_steps E (st # rest) s0 =
          run_steps E rest (s3\<lparr>trace := trace s3 @
             [ConsolePrint (NoTranscriptLine (AUDIO_DIR @ ''/'' @ step_file st))]\<rparr>))"
proof (intro conjI impI)
  show "\<exists>t s'. local_asr_transcribe E p s = (Inr t, s')"
    by (rule local_asr_transcribe_total)
next
  assume failure: "ws_connect E (world s) = (Inl e, w1)
     \<or> ws_connect E (world s) = (Inr (), w1) \<and>
       (wave_read E p w1 = (Inl e, w2)
        \<or> wave_read E p w1 = (Inr f, w2) \<and>
          (transcode (audioop_lib E) f = Inl e
           \<or> transcode (audioop_lib E) f = Inr m \<and>
             (ws_send E (Binary m) w2 = (Inl e, w3)
              \<or> ws_send E (Binary m) w2 = (Inr (), w3) \<and>
                (ws_send E (Text transcribe_request) w3 = (Inl e, w4)
                 \<or> ws_send E (Text transcribe_request) w3 = (Inr (), w4) \<and>
                   (ws_recv E w4 = (Inl e, w5)
                    \<or> ws_recv E w4 = (Inr r, w5) \<and>
                      (json_loads E r = Inl e
                       \<or> json_loads E r = Inr d \<and> response_text d = Inl e))))))"
  from asr_attempt_raises [OF failure] obtain s1 where raised: "asr_attempt E p s = (Inl e, s1)" ..
  from local_asr_transcribe_caught [OF raised] raised show "\<exists>s1. asr_attempt E p s = (Inl e, s1) \<and>
           local_asr_transcribe E p s =
             (Inr [], s1\<lparr>trace := trace s1 @ [ConsolePrint (AsrErrorLine e)]\<rparr>)"
    by blast
next
  assume skipped: "path_exists E (AUDIO_DIR @ ''/'' @ step_file st) (world s0) = (True, v1) \<and>
    play E (WavFile (AUDIO_DIR @ ''/'' @ step_file st)) v1 = (Inr (), v2) \<and>
    local_asr_transcribe E (AUDIO_DIR @ ''/'' @ step_file st)
      (s0\<lparr>world := v2,
          trace := trace s0 @ [PathExists (AUDIO_DIR @ ''/'' @ step_file st),
                               StatusUpdate (UserSpeaking (step_label st)),
                               Play (WavFile (AUDIO_DIR @ ''/'' @ step_file st)),
                               StatusUpdate Transcribing]\<rparr>) = (Inr [], s3)"
  then have step: "run_step E st s0 =
          (Inr (), s3\<lparr>trace := trace s3 @
             [ConsolePrint (NoTranscriptLine (AUDIO_DIR @ ''/'' @ step_file st))]\<rparr>)"
    by (intro run_step_no_transcript) auto
  from step show "run_step E st s0 =
          (Inr (), s3\<lparr>trace := trace s3 @
             [ConsolePrint (NoTranscriptLine (AUDIO_DIR @ ''/'' @ step_file st))]\<rparr>)" .
  from step show "run_steps E (st # rest) s0 =
          run_steps E rest (s3\<lparr>trace := trace s3 @
             [ConsolePrint (NoTranscriptLine (AUDIO_DIR @ ''/'' @ step_file st))]\<rparr>)"
    by (simp add: io_bind_def)
qed

lemma unreachable_transcribe:
  "local_asr_transcribe unreachable_env p s =
     (Inr [], s\<lparr>world := Suc (world s),
                trace := trace s @ [WsConnect, ConsolePrint (AsrErrorLine (ConnectionFailed ''connection refused''))]\<rparr>)"
  by (simp add: local_asr_transcribe_def asr_attempt_def io_defs unreachable_env_def stub_env_def)

theorem transcribe_failure_is_empty_transcript_witness:
  "local_asr_transcribe unreachable_env ''tests/audio/user_input_1.wav'' initial =
     (Inr [], \<lparr>world = 1,
               trace = [WsConnect, ConsolePrint (AsrErrorLine (ConnectionFailed ''connection refused''))],
               full_history = []\<rparr>) \<and>
   run_steps unreachable_env CONVERSATION_STEPS initial =
     run_steps unreachable_env (tl CONVERSATION_STEPS)
       \<lparr>world = 3,
        trace = [PathExists ''tests/audio/user_input_1.wav'',
                 StatusUpdate (UserSpeaking ''Transfer Request''),
                 Play (WavFile ''tests/audio/user_input_1.wav''),
                 StatusUpdate Transcribing,
                 WsConnect,
                 ConsolePrint (AsrErrorLine (ConnectionFailed ''connection refused'')),
                 ConsolePrint (NoTranscriptLine ''tests/audio/user_input_1.wav'')],
        full_history = []\<rparr>"
  using transcribe_failure_is_empty_transcript [of unreachable_env "''tests/audio/user_input_1.wav''"
      initial "ConnectionFailed ''connection refused''" 1 _ _ _ _ _ _ _ _
      "hd CONVERSATION_STEPS" initial 1 2 _ "tl CONVERSATION_STEPS"]
    unreachable_transcribe
  by (simp add: unreachable_env_def stub_env_def initial_def CONVERSATION_STEPS_def AUDIO_DIR_def)

end
